theory Spec2Isabelle
  imports Complex_Main
begin

unbundle bit_operations_syntax

section \<open>Transforms and the coordinate conversion\<close>

text \<open>
  Python floats are modelled as real numbers. The conversion only negates and permutes
  components (both exact on IEEE doubles) and compares differences with the constant
  \<open>0.0001\<close>; the concrete inputs used below stay far away from rounding boundaries.
  A Python tuple is a HOL tuple.
\<close>

type_synonym vec3 = "real \<times> real \<times> real"
type_synonym quat = "real \<times> real \<times> real \<times> real"

text \<open>
  \<^verbatim>\<open>@dataclass class Transform\<close> (the same class heads all three converters).
\<close>

record Transform =
  position :: vec3
  rotation :: quat
  scale :: vec3

definition default_Transform :: Transform where
  "default_Transform = \<lparr>position = (0, 0, 0), rotation = (0, 0, 0, 1), scale = (1, 1, 1)\<rparr>"

definition default_tolerance :: real where
  "default_tolerance = 1 / 10000"

text \<open>
  \<^verbatim>\<open>Transform.is_uniform_scale(self, tolerance=0.0001)\<close>:
  \<^verbatim>\<open>abs(scale[0] - scale[1]) < tolerance and abs(scale[1] - scale[2]) < tolerance\<close>.
\<close>

definition is_uniform_scale :: "Transform \<Rightarrow> real \<Rightarrow> bool" where
  "is_uniform_scale t tolerance =
     (case scale t of (s0, s1, s2) \<Rightarrow>
        \<bar>s0 - s1\<bar> < tolerance \<and> \<bar>s1 - s2\<bar> < tolerance)"

text \<open>
  \<^verbatim>\<open>_convert_to_o3de_coordinates\<close> of the integrated processor;
  \<^verbatim>\<open>convert_to_o3de_coordinates\<close> of the scene converter and of the prefab converter
  are the same function, line for line.
\<close>

definition convert_to_o3de_coordinates :: "Transform \<Rightarrow> Transform \<times> bool" where
  "convert_to_o3de_coordinates unity_transform =
     (case position unity_transform of (px, py, pz) \<Rightarrow>
      case rotation unity_transform of (qx, qy, qz, qw) \<Rightarrow>
      case scale unity_transform of (sx, sy, sz) \<Rightarrow>
        let o3de_pos = (- px, pz, py);
            o3de_rot = (- qx, qz, qy, qw);
            o3de_scale = (sx, sz, sy);
            converted = \<lparr>position = o3de_pos, rotation = o3de_rot, scale = o3de_scale\<rparr>
        in (converted, \<not> is_uniform_scale converted default_tolerance))"

section \<open>Strings, dictionaries and JSON values\<close>

text \<open>
  \<^verbatim>\<open>str(n)\<close> for a non-negative Python int. The counters and loop indices that are
  formatted into names start at 0 or 1000000 and only grow, so they are naturals.
\<close>

definition digit_char :: "nat \<Rightarrow> char" where
  "digit_char d = ''0123456789'' ! (d mod 10)"

fun str_nat :: "nat \<Rightarrow> string" where
  "str_nat n =
     (if n < 10 then [digit_char n] else str_nat (n div 10) @ [digit_char (n mod 10)])"

declare str_nat.simps [simp del]

text \<open>Reading a decimal numeral back; used to show that \<open>str_nat\<close> is injective.\<close>

definition digit_val :: "char \<Rightarrow> nat" where
  "digit_val c = of_char c - 48"

definition val_str :: "string \<Rightarrow> nat" where
  "val_str cs = foldl (\<lambda>a c. 10 * a + digit_val c) 0 cs"

text \<open>
  A Python \<^verbatim>\<open>dict\<close> keeps insertion order: an association list with distinct keys.
  \<^verbatim>\<open>d[k] = v\<close> replaces the value in place when the key is present and appends
  otherwise; \<^verbatim>\<open>d.get(k)\<close> is \<open>map_of d k\<close>; \<^verbatim>\<open>k in d\<close> is \<open>dict_has\<close>.
\<close>

fun dict_set :: "('k \<times> 'v) list \<Rightarrow> 'k \<Rightarrow> 'v \<Rightarrow> ('k \<times> 'v) list" where
  "dict_set [] k v = [(k, v)]"
| "dict_set ((k', v') # kvs) k v =
     (if k' = k then (k, v) # kvs else (k', v') # dict_set kvs k v)"

definition dict_has :: "('k \<times> 'v) list \<Rightarrow> 'k \<Rightarrow> bool" where
  "dict_has d k = (map_of d k \<noteq> None)"

text \<open>The values \<^verbatim>\<open>json.dump\<close> writes.\<close>

datatype json =
    JNull
  | JBool bool
  | JInt int
  | JFloat real
  | JStr string
  | JList "json list"
  | JDict "(string \<times> json) list"

definition json_vec3 :: "vec3 \<Rightarrow> json" where
  "json_vec3 v = (case v of (a, b, c) \<Rightarrow> JList [JFloat a, JFloat b, JFloat c])"

text \<open>
  \<^verbatim>\<open>s.replace(old, new)\<close> for a non-empty \<open>old\<close> (the only use replaces the literal
  \<^verbatim>\<open>'.azmodel'\<close>): all non-overlapping occurrences, leftmost first.
\<close>

function str_replace :: "string \<Rightarrow> string \<Rightarrow> string \<Rightarrow> string" where
  "str_replace old new s =
     (if old \<noteq> [] \<and> take (length old) s = old
      then new @ str_replace old new (drop (length old) s)
      else (case s of [] \<Rightarrow> [] | c # cs \<Rightarrow> c # str_replace old new cs))"
  by pat_completeness auto
termination
proof (relation "measure (\<lambda>(old, new, s). length s)")
  show "wf (measure (\<lambda>(old, new, s). length s))" by simp
next
  fix old new s :: string
  assume a: "old \<noteq> [] \<and> take (length old) s = old"
  then have "length (take (length old) s) = length old"
    by simp
  then have "length old \<le> length s"
    by simp
  with a show "((old, new, drop (length old) s), (old, new, s))
        \<in> measure (\<lambda>(old, new, s). length s)"
    by (cases old) auto
next
  fix old new s :: string and c cs
  assume "s = c # cs"
  then show "((old, new, cs), (old, new, s)) \<in> measure (\<lambda>(old, new, s). length s)"
    by simp
qed

declare str_replace.simps [simp del]

section \<open>The integrated asset processor: source objects\<close>

text \<open>
  A collider dictionary is built only by \<^verbatim>\<open>_parse_collider_data\<close>, which always stores
  \<^verbatim>\<open>'is_trigger'\<close> and \<^verbatim>\<open>'center'\<close> and then the fields of its \<^verbatim>\<open>'type'\<close>: a record
  with a tagged shape. The arguments are: box size; sphere radius; capsule radius, height
  and direction; mesh guid and the convex flag.
\<close>

datatype collider_shape =
    BoxCollider vec3
  | SphereCollider real
  | CapsuleCollider real real int
  | MeshCollider string bool

record Collider =
  is_trigger :: bool
  center :: vec3
  shape :: collider_shape

text \<open>
  \<^verbatim>\<open>go.rigidbody_data\<close> as \<^verbatim>\<open>_build_hierarchy\<close> stores it. \<^verbatim>\<open>m_Constraints\<close> is an
  unbounded Python int.
\<close>

record RigidbodyData =
  mass :: real
  drag :: real
  angular_drag :: real
  use_gravity :: bool
  is_kinematic :: bool
  constraints :: int

text \<open>
  \<^verbatim>\<open>@dataclass class GameObject\<close>. The fields shared by the integrated processor and
  the scene converter form the core record; each converter extends it with its own
  fields. (\<^verbatim>\<open>components\<close> of the integrated processor is never read or written by it
  and is left out.)
\<close>

record GameObject_core =
  file_id :: string
  name :: string
  transform :: Transform
  parent_id :: "string option"
  children_ids :: "string list"
  is_prefab_instance :: bool
  prefab_source_guid :: "string option"

record GameObject = GameObject_core +
  mesh_guid :: "string option"
  material_guids :: "string list"
  has_rigidbody :: bool
  rigidbody_data :: "RigidbodyData option"
  colliders :: "Collider list"

section \<open>Identifiers\<close>

text \<open>
  \<^verbatim>\<open>random.randint\<close> draws from the interpreter's generator: the sequence of draws
  is a parameter of the state (\<open>random_ints\<close>), and \<open>random_pos\<close> counts the draws made.
  Both converters extend this record with their own counters.
\<close>

record RandomState =
  random_ints :: "nat \<Rightarrow> int"
  random_pos :: nat

text \<open>
  \<^verbatim>\<open>_generate_component_id\<close> (the same in the integrated processor and in the scene
  converter): \<^verbatim>\<open>random.randint(1000000000000000, 9999999999999999)\<close>.
\<close>

definition generate_component_id :: "'a RandomState_scheme \<Rightarrow> int \<times> 'a RandomState_scheme" where
  "generate_component_id s =
     (random_ints s (random_pos s), s\<lparr>random_pos := Suc (random_pos s)\<rparr>)"

text \<open>
  The part of \<^verbatim>\<open>IntegratedAssetProcessor\<close> that entity creation reads and writes;
  \<open>guid_to_path\<close> is the index of its \<^verbatim>\<open>asset_db\<close>. A path is modelled by its string.
\<close>

record Processor = RandomState +
  entity_id_counter :: nat
  total_colliders :: nat
  total_rigidbodies :: nat
  project_name :: string
  guid_to_path :: "(string \<times> string) list"

text \<open>\<^verbatim>\<open>_generate_entity_id\<close> of the integrated processor: increment, then format.\<close>

definition generate_entity_id :: "Processor \<Rightarrow> string \<times> Processor" where
  "generate_entity_id s =
     (let c = entity_id_counter s + 1
      in (''Entity_['' @ str_nat c @ '']'', s\<lparr>entity_id_counter := c\<rparr>))"

text \<open>
  The dictionary literal \<^verbatim>\<open>{"$type": t, "Id": self._generate_component_id()}\<close>, and
  a run of such literals evaluated in order, as the entity literals of the source do.
\<close>

definition plain_component ::
  "string \<Rightarrow> 'a RandomState_scheme \<Rightarrow> (string \<times> json) \<times> 'a RandomState_scheme" where
  "plain_component type_name s =
     (case generate_component_id s of (cid, s') \<Rightarrow>
        ((type_name, JDict [(''$type'', JStr type_name), (''Id'', JInt cid)]), s'))"

fun plain_components ::
  "string list \<Rightarrow> 'a RandomState_scheme \<Rightarrow> (string \<times> json) list \<times> 'a RandomState_scheme" where
  "plain_components [] s = ([], s)"
| "plain_components (t # ts) s =
     (case plain_component t s of (c, s1) \<Rightarrow>
      case plain_components ts s1 of (cs, s2) \<Rightarrow> (c # cs, s2))"

definition transform_type :: string where
  "transform_type = ''{27F1E1A1-8D9D-4C3B-BD3A-AFB9762449C0} TransformComponent''"

text \<open>An output entity: \<^verbatim>\<open>{"Id": ..., "Name": ..., "Components": {...}}\<close>.\<close>

record Entity =
  ent_Id :: string
  ent_Name :: string
  ent_Components :: "(string \<times> json) list"

section \<open>The integrated asset processor: PhysX components\<close>

text \<open>\<^verbatim>\<open>_make_bare_entity\<close>: the minimal entity of a collider child.\<close>

definition make_bare_entity ::
  "string \<Rightarrow> string \<Rightarrow> string \<Rightarrow> 'a RandomState_scheme \<Rightarrow> Entity \<times> 'a RandomState_scheme" where
  "make_bare_entity entity_id nm parent_entity_id s =
     (case generate_component_id s of (tid, s1) \<Rightarrow>
      case plain_components
             [''EditorDisabledCompositionComponent'', ''EditorEntityIconComponent'',
              ''EditorInspectorComponent'', ''EditorLockComponent'',
              ''EditorOnlyEntityComponent'', ''EditorPendingCompositionComponent'',
              ''EditorVisibilityComponent''] s1 of (cs, s2) \<Rightarrow>
        (\<lparr>ent_Id = entity_id, ent_Name = nm,
          ent_Components =
            (''TransformComponent'',
             JDict [(''$type'', JStr transform_type), (''Id'', JInt tid),
                    (''Parent Entity'', JStr parent_entity_id)]) # cs\<rparr>, s2))"

text \<open>\<^verbatim>\<open>any(abs(v) > 0.0001 for v in vs)\<close>.\<close>

definition any_above_tolerance :: "real list \<Rightarrow> bool" where
  "any_above_tolerance vs = list_ex (\<lambda>v. \<bar>v\<bar> > 1 / 10000) vs"

definition material_slots :: "(string \<times> json) list" where
  "material_slots =
     [(''MaterialSlots'', JDict [(''Slots'', JList [JDict [(''Name'', JStr ''Entire object'')]])])]"

text \<open>
  \<^verbatim>\<open>_add_shape_collider\<close>. The shape test on \<^verbatim>\<open>col_type\<close> is the case distinction on
  the collider's shape; a mesh collider matches none of the three branches and leaves
  \<^verbatim>\<open>shape_config = {}\<close>.
\<close>

definition add_shape_collider ::
  "(string \<times> json) list \<Rightarrow> Collider \<Rightarrow> real list \<Rightarrow> bool \<Rightarrow> 'a RandomState_scheme
     \<Rightarrow> (string \<times> json) list \<times> 'a RandomState_scheme" where
  "add_shape_collider components collider offset trigger s =
     (let has_offset = any_above_tolerance offset;
          off = JList (map JFloat offset);
          with_offset = (\<lambda>cfg. if has_offset then dict_set cfg ''TranslationOffset'' off else cfg)
      in
      case (case shape collider of
              BoxCollider sz \<Rightarrow>
                (case sz of (sx, sy, sz) \<Rightarrow>
                   let dims = JList [JFloat sx, JFloat sz, JFloat sy];
                       shape_config = JDict [(''$type'', JStr ''BoxShapeConfiguration''),
                                             (''Configuration'', dims)];
                       box_cfg = with_offset [(''Dimensions'', dims)]
                   in case generate_component_id s of (cid, s1) \<Rightarrow>
                        (shape_config,
                         dict_set components ''EditorBoxShapeComponent''
                           (JDict [(''$type'', JStr ''EditorBoxShapeComponent''), (''Id'', JInt cid),
                                   (''BoxShape'', JDict [(''Configuration'', JDict box_cfg)])]),
                         s1))
            | SphereCollider radius \<Rightarrow>
                (let shape_config = JDict [(''$type'', JStr ''SphereShapeConfiguration''),
                                           (''Radius'', JFloat radius)];
                     sphere_cfg = with_offset [(''Radius'', JFloat radius)]
                 in case generate_component_id s of (cid, s1) \<Rightarrow>
                      (shape_config,
                       dict_set components ''EditorSphereShapeComponent''
                         (JDict [(''$type'', JStr ''EditorSphereShapeComponent''), (''Id'', JInt cid),
                                 (''SphereShape'', JDict [(''Configuration'', JDict sphere_cfg)])]),
                       s1))
            | CapsuleCollider radius height direction \<Rightarrow>
                (let shape_config = JDict [(''$type'', JStr ''CapsuleShapeConfiguration''),
                                           (''Height'', JFloat height), (''Radius'', JFloat radius)];
                     capsule_cfg = with_offset [(''Height'', JFloat height), (''Radius'', JFloat radius)]
                 in case generate_component_id s of (cid, s1) \<Rightarrow>
                      (shape_config,
                       dict_set components ''EditorCapsuleShapeComponent''
                         (JDict [(''$type'', JStr ''EditorCapsuleShapeComponent''), (''Id'', JInt cid),
                                 (''CapsuleShape'', JDict [(''Configuration'', JDict capsule_cfg)])]),
                       s1))
            | MeshCollider g convex \<Rightarrow> (JDict [], components, s)) of
        (shape_config, components1, s1) \<Rightarrow>
          let cfg0 = material_slots;
              cfg1 = (if trigger then dict_set cfg0 ''Trigger'' (JBool True) else cfg0);
              cfg2 = (if has_offset then dict_set cfg1 ''Position'' off else cfg1)
          in case generate_component_id s1 of (cid, s2) \<Rightarrow>
               (dict_set components1 ''EditorShapeColliderComponent''
                  (JDict [(''$type'', JStr ''EditorShapeColliderComponent''), (''Id'', JInt cid),
                          (''ColliderConfiguration'', JDict cfg2),
                          (''ShapeConfigs'', JList [shape_config])]),
                s2))"

text \<open>
  \<^verbatim>\<open>_add_mesh_collider\<close>. \<^verbatim>\<open>mesh_mapping\<close> is only looked up: a map. A Python string
  is true when it is not empty.
\<close>

definition collider_mesh_guid :: "Collider \<Rightarrow> string" where
  "collider_mesh_guid collider =
     (case shape collider of MeshCollider g convex \<Rightarrow> g | _ \<Rightarrow> [])"

definition add_mesh_collider ::
  "(string \<times> json) list \<Rightarrow> Collider \<Rightarrow> bool \<Rightarrow> (string \<rightharpoonup> string) \<Rightarrow> 'a GameObject_scheme
     \<Rightarrow> 'b RandomState_scheme \<Rightarrow> (string \<times> json) list \<times> 'b RandomState_scheme" where
  "add_mesh_collider components collider trigger mesh_mapping go s =
     (let cfg0 = material_slots;
          collider_cfg = (if trigger then dict_set cfg0 ''Trigger'' (JBool True) else cfg0)
      in case generate_component_id s of (cid, s1) \<Rightarrow>
        let mesh_comp = [(''$type'', JStr ''EditorMeshColliderComponent''), (''Id'', JInt cid),
                         (''ColliderConfiguration'', JDict collider_cfg)];
            g = collider_mesh_guid collider;
            hint =
              (if g \<noteq> [] \<and> mesh_mapping g \<noteq> None
               then Some (str_replace ''.azmodel'' ''.pxmesh'' (the (mesh_mapping g)))
               else case mesh_guid go of
                      None \<Rightarrow> None
                    | Some mg \<Rightarrow>
                        if mg \<noteq> [] \<and> mesh_mapping mg \<noteq> None
                        then Some (str_replace ''.azmodel'' ''.pxmesh'' (the (mesh_mapping mg)))
                        else None);
            mesh_comp1 =
              (case hint of
                 None \<Rightarrow> mesh_comp
               | Some h \<Rightarrow>
                   if h = [] then mesh_comp
                   else dict_set mesh_comp ''ShapeConfiguration''
                          (JDict [(''PhysicsAsset'',
                             JDict [(''Asset'', JDict [(''assetHint'', JStr h)]),
                                    (''Configuration'',
                                     JDict [(''PhysicsAsset'',
                                        JDict [(''loadBehavior'', JStr ''QueueLoad''),
                                               (''assetHint'', JStr h)])])])]))
        in (dict_set components ''EditorMeshColliderComponent'' (JDict mesh_comp1), s1))"

text \<open>
  Lines 1107-1117 of \<^verbatim>\<open>_create_physx_components\<close>: the centre is remapped like a
  position and the collider goes to the mesh or to the shape helper.
\<close>

definition add_collider ::
  "(string \<times> json) list \<Rightarrow> Collider \<Rightarrow> (string \<rightharpoonup> string) \<Rightarrow> 'a GameObject_scheme
     \<Rightarrow> 'b RandomState_scheme \<Rightarrow> (string \<times> json) list \<times> 'b RandomState_scheme" where
  "add_collider target collider mesh_mapping go s =
     (case center collider of (cx, cy, cz) \<Rightarrow>
        let offset = [- cx, cz, cy];
            trigger = is_trigger collider
        in case shape collider of
             MeshCollider g convex \<Rightarrow> add_mesh_collider target collider trigger mesh_mapping go s
           | _ \<Rightarrow> add_shape_collider target collider offset trigger s)"

definition static_rigid_body :: "int \<Rightarrow> json" where
  "static_rigid_body cid =
     JDict [(''$type'', JStr ''EditorStaticRigidBodyComponent''), (''Id'', JInt cid)]"

text \<open>
  The loop \<^verbatim>\<open>for idx, collider in enumerate(go.colliders)\<close>. The child dictionary is
  stored in \<^verbatim>\<open>entities_dict\<close> before its collider is added through the alias
  \<^verbatim>\<open>target\<close>; nothing else is stored in between, so the model stores the finished child.
\<close>

fun collider_loop ::
  "'a GameObject_scheme \<Rightarrow> string \<Rightarrow> (string \<rightharpoonup> string) \<Rightarrow> nat \<Rightarrow> Collider list
     \<Rightarrow> (string \<times> json) list \<Rightarrow> string list \<Rightarrow> (string \<times> Entity) list \<Rightarrow> Processor
     \<Rightarrow> (string \<times> json) list \<times> string list \<times> (string \<times> Entity) list \<times> Processor" where
  "collider_loop go eid mesh_mapping idx [] components child_entity_ids entities_dict s =
     (components, child_entity_ids, entities_dict, s)"
| "collider_loop go eid mesh_mapping idx (collider # rest) components child_entity_ids entities_dict s =
     (if idx = 0 then
        case add_collider components collider mesh_mapping go s of (components1, s1) \<Rightarrow>
          collider_loop go eid mesh_mapping (Suc idx) rest components1 child_entity_ids
            entities_dict (s1\<lparr>total_colliders := total_colliders s1 + 1\<rparr>)
      else
        case generate_entity_id s of (child_id, s1) \<Rightarrow>
        case make_bare_entity child_id (name go @ ''_Collider_'' @ str_nat idx) eid s1 of
          (child, s2) \<Rightarrow>
        case generate_component_id s2 of (sid, s3) \<Rightarrow>
        let marked = dict_set (ent_Components child) ''EditorStaticRigidBodyComponent''
                       (static_rigid_body sid)
        in case add_collider marked collider mesh_mapping go s3 of (target, s4) \<Rightarrow>
          collider_loop go eid mesh_mapping (Suc idx) rest components
            (child_entity_ids @ [child_id])
            (dict_set entities_dict child_id (child\<lparr>ent_Components := target\<rparr>))
            (s4\<lparr>total_colliders := total_colliders s4 + 1\<rparr>))"

text \<open>
  Lines 1124-1144: the rigid body configuration. \<^verbatim>\<open>rb = go.rigidbody_data or {}\<close>, so a
  missing dictionary gives every default. \<^verbatim>\<open>constraints & m\<close> is true when it is not 0.
\<close>

definition rigid_body_config :: "RigidbodyData option \<Rightarrow> (string \<times> json) list" where
  "rigid_body_config rbo =
     (let rb = (case rbo of
                  None \<Rightarrow> \<lparr>mass = 1, drag = 0, angular_drag = 5 / 100, use_gravity = True,
                           is_kinematic = False, constraints = 0\<rparr>
                | Some r \<Rightarrow> r);
          config0 = [(''Mass'', JFloat (mass rb)),
                     (''Linear damping'', JFloat (drag rb)),
                     (''Angular damping'', JFloat (angular_drag rb)),
                     (''Gravity Enabled'', JBool (use_gravity rb))];
          config1 = (if is_kinematic rb then dict_set config0 ''Kinematic'' (JBool True) else config0);
          c = constraints rb;
          lock = (\<lambda>m key cfg. if c AND m \<noteq> 0 then dict_set cfg key (JBool True) else cfg)
      in if c \<noteq> 0
         then lock 64 ''Lock Angular Y''
               (lock 32 ''Lock Angular Z''
                 (lock 16 ''Lock Angular X''
                   (lock 8 ''Lock Linear Y''
                     (lock 4 ''Lock Linear Z''
                       (lock 2 ''Lock Linear X'' config1)))))
         else config1)"

text \<open>
  \<^verbatim>\<open>_create_physx_components\<close>: returns the child ids; the entity, the entity
  dictionary and the processor are returned updated.
\<close>

definition create_physx_components ::
  "'a GameObject_scheme \<Rightarrow> Entity \<Rightarrow> (string \<rightharpoonup> string) \<Rightarrow> (string \<times> Entity) list \<Rightarrow> Processor
     \<Rightarrow> string list \<times> Entity \<times> (string \<times> Entity) list \<times> Processor" where
  "create_physx_components go entity mesh_mapping entities_dict s =
     (if colliders go = [] \<and> \<not> has_rigidbody go then ([], entity, entities_dict, s)
      else
        case collider_loop go (ent_Id entity) mesh_mapping 0 (colliders go)
               (ent_Components entity) [] entities_dict s of
          (components, child_entity_ids, entities_dict1, s1) \<Rightarrow>
            if has_rigidbody go then
              case generate_component_id s1 of (cid, s2) \<Rightarrow>
                (child_entity_ids,
                 entity\<lparr>ent_Components :=
                   dict_set components ''EditorRigidBodyComponent''
                     (JDict [(''$type'', JStr ''EditorRigidBodyComponent''), (''Id'', JInt cid),
                             (''Configuration'', JDict (rigid_body_config (rigidbody_data go)))])\<rparr>,
                 entities_dict1,
                 s2\<lparr>total_rigidbodies := total_rigidbodies s2 + 1\<rparr>)
            else if colliders go \<noteq> [] then
              case generate_component_id s1 of (cid, s2) \<Rightarrow>
                (child_entity_ids,
                 entity\<lparr>ent_Components :=
                   dict_set components ''EditorStaticRigidBodyComponent'' (static_rigid_body cid)\<rparr>,
                 entities_dict1,
                 s2\<lparr>total_rigidbodies := total_rigidbodies s2 + 1\<rparr>)
            else (child_entity_ids, entity\<lparr>ent_Components := components\<rparr>, entities_dict1, s1))"

text \<open>
  How the claims about collider children read an entity: the number of collider
  components among its components, and the parent link of its transform component.
\<close>

definition is_collider_key :: "string \<Rightarrow> bool" where
  "is_collider_key k = (k = ''EditorMeshColliderComponent'' \<or> k = ''EditorShapeColliderComponent'')"

definition collider_attachments :: "(string \<times> json) list \<Rightarrow> nat" where
  "collider_attachments components = length (filter is_collider_key (map fst components))"

definition parent_link :: "Entity \<Rightarrow> json option" where
  "parent_link e =
     (case map_of (ent_Components e) ''TransformComponent'' of
        Some (JDict kv) \<Rightarrow> map_of kv ''Parent Entity''
      | _ \<Rightarrow> None)"

definition has_static_marker :: "Entity \<Rightarrow> bool" where
  "has_static_marker e =
     (\<exists>cid. map_of (ent_Components e) ''EditorStaticRigidBodyComponent''
             = Some (static_rigid_body cid))"

definition entity_id_of :: "nat \<Rightarrow> string" where
  "entity_id_of n = ''Entity_['' @ str_nat n @ '']''"

text \<open>
  A collider child as C2 describes it: named after its parent and its index, linked to
  the parent's id, holding one collider.
\<close>

definition is_collider_child :: "string \<Rightarrow> string \<Rightarrow> nat \<Rightarrow> string \<Rightarrow> Entity \<Rightarrow> bool" where
  "is_collider_child parent_name parent_entity_id idx child_id ch =
     (ent_Id ch = child_id
      \<and> ent_Name ch = parent_name @ ''_Collider_'' @ str_nat idx
      \<and> parent_link ch = Some (JStr parent_entity_id)
      \<and> collider_attachments (ent_Components ch) = 1)"

text \<open>
  Example inputs: a processor at its initial counter drawing the id 7 every time, the
  entity of a node named Node before its physics components are added (its id was the
  first one generated), a node with three colliders and no rigidbody, and a node with
  two colliders and a rigidbody.
\<close>

definition example_processor :: Processor where
  "example_processor =
     \<lparr>random_ints = (\<lambda>n. 7), random_pos = 0, entity_id_counter = 1000001,
      total_colliders = 0, total_rigidbodies = 0, project_name = ''proj'', guid_to_path = []\<rparr>"

definition example_entity :: Entity where
  "example_entity = \<lparr>ent_Id = ''Entity_[1000001]'', ent_Name = ''Node'', ent_Components = []\<rparr>"

definition example_node :: "bool \<Rightarrow> Collider list \<Rightarrow> GameObject" where
  "example_node rigid cs =
     \<lparr>file_id = ''100'', name = ''Node'',
      transform = \<lparr>position = (1, 2, 3), rotation = (0, 0, 0, 1), scale = (1, 1, 1)\<rparr>,
      parent_id = None, children_ids = [], is_prefab_instance = False,
      prefab_source_guid = None, mesh_guid = None, material_guids = [],
      has_rigidbody = rigid,
      rigidbody_data = (if rigid then Some \<lparr>mass = 1, drag = 0, angular_drag = 5 / 100,
                          use_gravity = True, is_kinematic = False, constraints = 0\<rparr> else None),
      colliders = cs\<rparr>"

definition example_box :: Collider where
  "example_box = \<lparr>is_trigger = False, center = (0, 0, 0), shape = BoxCollider (2, 2, 2)\<rparr>"

definition example_sphere :: Collider where
  "example_sphere = \<lparr>is_trigger = False, center = (0, 1, 0), shape = SphereCollider 1\<rparr>"

definition example_capsule :: Collider where
  "example_capsule = \<lparr>is_trigger = True, center = (0, 0, 0), shape = CapsuleCollider (1 / 2) 2 1\<rparr>"

section \<open>The GUID index of the asset database\<close>

text \<open>
  What \<^verbatim>\<open>_build_guid_index\<close> sees of the file system: the metadata files in the order
  \<^verbatim>\<open>rglob('*.meta')\<close> yields them, the text of a file (\<open>None\<close> when opening or reading
  raises, which the \<^verbatim>\<open>except Exception: continue\<close> of the loop swallows), and whether a
  path exists. File text is a list of ASCII characters.
\<close>

record FileSystem =
  rglob_meta :: "string list"
  read_text :: "string \<Rightarrow> string option"
  path_exists :: "string \<Rightarrow> bool"

text \<open>The character classes \<^verbatim>\<open>\s\<close> and \<^verbatim>\<open>[a-f0-9]\<close> on ASCII text.\<close>

definition is_space :: "char \<Rightarrow> bool" where
  "is_space c = (let n = (of_char c :: nat) in (9 \<le> n \<and> n \<le> 13) \<or> (28 \<le> n \<and> n \<le> 32))"

definition is_hex_lower :: "char \<Rightarrow> bool" where
  "is_hex_lower c = (c \<in> set ''0123456789abcdef'')"

text \<open>
  \<^verbatim>\<open>re.search(r'guid:\s*([a-f0-9]+)', content)\<close>, group 1 of the leftmost match. At a
  position where \<^verbatim>\<open>guid:\<close> stands, the greedy \<^verbatim>\<open>\s*\<close> takes all the white space;
  giving some back leaves a white space character where a hex digit is needed, so the
  position matches exactly when a hex digit follows the white space.
\<close>

definition match_guid_here :: "string \<Rightarrow> string option" where
  "match_guid_here s =
     (if take 5 s = ''guid:''
      then (let g = takeWhile is_hex_lower (dropWhile is_space (drop 5 s))
            in if g = [] then None else Some g)
      else None)"

fun search_guid :: "string \<Rightarrow> string option" where
  "search_guid [] = None"
| "search_guid (c # cs) =
     (case match_guid_here (c # cs) of Some g \<Rightarrow> Some g | None \<Rightarrow> search_guid cs)"

text \<open>\<^verbatim>\<open>Path(str(meta_file)[:-5])\<close>: the path without its last five characters.\<close>

definition asset_file_of :: "string \<Rightarrow> string" where
  "asset_file_of meta_file = take (length meta_file - 5) meta_file"

text \<open>
  One round of the loop of \<^verbatim>\<open>_build_guid_index\<close>: the entry the metadata file
  contributes, if any.
\<close>

definition indexed_entry :: "FileSystem \<Rightarrow> string \<Rightarrow> (string \<times> string) option" where
  "indexed_entry fs meta_file =
     (case read_text fs meta_file of
        None \<Rightarrow> None
      | Some content \<Rightarrow>
          (case search_guid content of
             None \<Rightarrow> None
           | Some guid \<Rightarrow>
               (let asset_file = asset_file_of meta_file
                in if path_exists fs asset_file then Some (guid, asset_file) else None)))"

definition index_step :: "FileSystem \<Rightarrow> (string \<times> string) list \<Rightarrow> string \<Rightarrow> (string \<times> string) list" where
  "index_step fs index meta_file =
     (case indexed_entry fs meta_file of
        None \<Rightarrow> index
      | Some (guid, asset_file) \<Rightarrow> dict_set index guid asset_file)"

definition build_guid_index :: "FileSystem \<Rightarrow> (string \<times> string) list" where
  "build_guid_index fs = foldl (index_step fs) [] (rglob_meta fs)"

text \<open>\<^verbatim>\<open>resolve_guid\<close>: \<^verbatim>\<open>self.guid_to_path.get(guid)\<close>.\<close>

definition resolve_guid :: "(string \<times> string) list \<Rightarrow> string \<Rightarrow> string option" where
  "resolve_guid index guid = map_of index guid"

text \<open>The metadata files, in scan order, that contribute an entry for a GUID.\<close>

definition declaring :: "FileSystem \<Rightarrow> string \<Rightarrow> string list" where
  "declaring fs guid =
     filter (\<lambda>m. case indexed_entry fs m of None \<Rightarrow> False | Some (g, a) \<Rightarrow> g = guid)
       (rglob_meta fs)"

section \<open>Entities\<close>

text \<open>
  \<^verbatim>\<open>math.atan2\<close>, \<^verbatim>\<open>math.copysign(math.pi / 2, x)\<close> and \<^verbatim>\<open>math.degrees\<close> on real
  numbers (signed zeros are not modelled).
\<close>

definition atan2 :: "real \<Rightarrow> real \<Rightarrow> real" where
  "atan2 y x =
     (if 0 < x then arctan (y / x)
      else if x < 0 then (if 0 \<le> y then arctan (y / x) + pi else arctan (y / x) - pi)
      else if 0 < y then pi / 2
      else if y < 0 then - (pi / 2)
      else 0)"

definition degrees :: "real \<Rightarrow> real" where
  "degrees r = r * 180 / pi"

text \<open>\<^verbatim>\<open>_quaternion_to_euler\<close> (the same in both converters).\<close>

definition quaternion_to_euler :: "quat \<Rightarrow> real list" where
  "quaternion_to_euler quaternion =
     (case quaternion of (x, y, z, w) \<Rightarrow>
        let sinr_cosp = 2 * (w * x + y * z);
            cosr_cosp = 1 - 2 * (x * x + y * y);
            roll = atan2 sinr_cosp cosr_cosp;
            sinp = 2 * (w * y - z * x);
            pitch = (if 1 \<le> \<bar>sinp\<bar> then (if 0 \<le> sinp then pi / 2 else - (pi / 2))
                     else arcsin sinp);
            siny_cosp = 2 * (w * z + x * y);
            cosy_cosp = 1 - 2 * (y * y + z * z);
            yaw = atan2 siny_cosp cosy_cosp
        in [degrees roll, degrees pitch, degrees yaw])"

text \<open>
  The transform component of an entity, lines 1391-1417 (scene converter: 723-742):
  \<^verbatim>\<open>Transform Data\<close> is present only for a non-default converted transform.
\<close>

definition transform_component :: "Transform \<Rightarrow> bool \<Rightarrow> string \<Rightarrow> int \<Rightarrow> json" where
  "transform_component o3de_transform needs_nonuniform parent_entity_id cid =
     (case position o3de_transform of (px, py, pz) \<Rightarrow>
      case scale o3de_transform of (sx, sy, sz) \<Rightarrow>
        let comp = [(''$type'', JStr transform_type), (''Id'', JInt cid),
                    (''Parent Entity'', JStr parent_entity_id)];
            euler = quaternion_to_euler (rotation o3de_transform);
            has_translation = any_above_tolerance [px, py, pz];
            has_rotation = any_above_tolerance euler;
            has_scale = (\<not> needs_nonuniform \<and> \<bar>sx - 1\<bar> > 1 / 10000)
        in if has_translation \<or> has_rotation \<or> has_scale then
             let td0 = [];
                 td1 = (if has_translation
                        then dict_set td0 ''Translate'' (JList [JFloat px, JFloat py, JFloat pz])
                        else td0);
                 td2 = (if has_rotation then dict_set td1 ''Rotate'' (JList (map JFloat euler))
                        else td1);
                 td3 = (if has_scale then dict_set td2 ''Scale'' (JFloat sx) else td2)
             in JDict (dict_set comp ''Transform Data'' (JDict td3))
           else JDict comp)"

text \<open>
  Lines 1421-1426 (scene converter: 746-751): the explicit per-axis scale component.
\<close>

definition add_nonuniform_scale ::
  "(string \<times> json) list \<Rightarrow> Transform \<Rightarrow> bool \<Rightarrow> 'a RandomState_scheme
     \<Rightarrow> (string \<times> json) list \<times> 'a RandomState_scheme" where
  "add_nonuniform_scale components o3de_transform needs_nonuniform s =
     (if needs_nonuniform then
        case generate_component_id s of (cid, s1) \<Rightarrow>
          (dict_set components ''EditorNonUniformScaleComponent''
             (JDict [(''$type'', JStr ''EditorNonUniformScaleComponent''), (''Id'', JInt cid),
                     (''Scale'', json_vec3 (scale o3de_transform))]), s1)
      else (components, s))"

text \<open>A Python \<^verbatim>\<open>Optional[str]\<close> is true when it is neither \<^verbatim>\<open>None\<close> nor empty.\<close>

definition truthy :: "string option \<Rightarrow> bool" where
  "truthy v = (case v of None \<Rightarrow> False | Some x \<Rightarrow> x \<noteq> [])"

text \<open>An optional string inside an f-string: \<^verbatim>\<open>None\<close> prints as \<^verbatim>\<open>None\<close>.\<close>

definition fmt_optional :: "string option \<Rightarrow> string" where
  "fmt_optional v = (case v of None \<Rightarrow> ''None'' | Some x \<Rightarrow> x)"

text \<open>
  \<^verbatim>\<open>Path.name\<close> and \<^verbatim>\<open>Path.suffix\<close> of a POSIX path given as its string: the last
  component, and its part from the last dot on when that dot is neither its first nor
  its last character.
\<close>

definition path_name :: "string \<Rightarrow> string" where
  "path_name p = rev (takeWhile (\<lambda>c. c \<noteq> CHR ''/'') (rev p))"

definition path_suffix :: "string \<Rightarrow> string" where
  "path_suffix p =
     (let n = path_name p;
          ext = rev (takeWhile (\<lambda>c. c \<noteq> CHR ''.'') (rev n))
      in if CHR ''.'' \<in> set n \<and> ext \<noteq> [] \<and> Suc (length ext) < length n
         then CHR ''.'' # ext else [])"

text \<open>
  The patch list of a prefab instance (\<^verbatim>\<open>_create_nested_prefab_instance\<close>, lines
  1021-1054; \<^verbatim>\<open>_create_prefab_instance\<close> of the scene converter builds the same
  dictionary from its own source path).
\<close>

definition instance_patches :: "'a GameObject_core_scheme \<Rightarrow> string option \<Rightarrow> json" where
  "instance_patches go parent_entity_id =
     (case position (fst (convert_to_o3de_coordinates (transform go))) of (px, py, pz) \<Rightarrow>
        let patch = (\<lambda>path v. JDict [(''op'', JStr ''replace''), (''path'', JStr path), (''value'', v)]);
            patches = [patch ''/ContainerEntity/Components/TransformComponent/Parent Entity''
                         (JStr (''../'' @ fmt_optional parent_entity_id))]
        in JList
             (if any_above_tolerance [px, py, pz]
              then patches @
                [patch ''/ContainerEntity/Components/TransformComponent/Transform Data/Translate/0''
                   (JFloat px),
                 patch ''/ContainerEntity/Components/TransformComponent/Transform Data/Translate/1''
                   (JFloat py),
                 patch ''/ContainerEntity/Components/TransformComponent/Transform Data/Translate/2''
                   (JFloat pz)]
              else patches))"

definition create_nested_prefab_instance ::
  "'a GameObject_core_scheme \<Rightarrow> string \<Rightarrow> string option \<Rightarrow> Processor \<Rightarrow> json" where
  "create_nested_prefab_instance go prefab_path parent_entity_id s =
     JDict [(''Source'', JStr (project_name s @ ''/prefabs/'' @ path_name prefab_path)),
            (''Patches'', instance_patches go parent_entity_id)]"

text \<open>
  Lines 1333-1345 of \<^verbatim>\<open>_create_entity_recursive\<close>: a prefab instance with a GUID takes
  an instance id from the entity counter; it becomes an instance only when the GUID
  resolves to a \<^verbatim>\<open>.prefab\<close> path, otherwise the function goes on to build an entity.
\<close>

definition nested_instance ::
  "'a GameObject_core_scheme \<Rightarrow> string option \<Rightarrow> Processor
     \<Rightarrow> (string \<times> json) option \<times> Processor" where
  "nested_instance go parent_entity_id s =
     (if is_prefab_instance go \<and> truthy (prefab_source_guid go) then
        let instance_id = ''Instance_['' @ str_nat (entity_id_counter s) @ '']'';
            s1 = s\<lparr>entity_id_counter := entity_id_counter s + 1\<rparr>
        in case resolve_guid (guid_to_path s1) (the (prefab_source_guid go)) of
             None \<Rightarrow> (None, s1)
           | Some prefab_path \<Rightarrow>
               if path_suffix prefab_path = ''.prefab''
               then (Some (instance_id, create_nested_prefab_instance go prefab_path parent_entity_id s1), s1)
               else (None, s1)
      else (None, s))"

definition entity_base_components :: "string list" where
  "entity_base_components =
     [''EditorDisabledCompositionComponent'', ''EditorEntityIconComponent'',
      ''EditorInspectorComponent'', ''EditorLockComponent'',
      ''EditorPendingCompositionComponent'', ''EditorVisibilityComponent'']"

text \<open>Lines 1428-1441: the mesh component, when the mesh GUID has an output path.\<close>

definition add_mesh_component ::
  "(string \<times> json) list \<Rightarrow> string option \<Rightarrow> (string \<rightharpoonup> string) \<Rightarrow> 'a RandomState_scheme
     \<Rightarrow> (string \<times> json) list \<times> 'a RandomState_scheme" where
  "add_mesh_component components mguid mesh_mapping s =
     (if truthy mguid \<and> truthy (mesh_mapping (the mguid)) then
        case generate_component_id s of (cid, s1) \<Rightarrow>
          (dict_set components ''AZ::Render::EditorMeshComponent''
             (JDict [(''$type'', JStr ''AZ::Render::EditorMeshComponent''), (''Id'', JInt cid),
                     (''Controller'',
                      JDict [(''Configuration'',
                        JDict [(''ModelAsset'',
                          JDict [(''assetHint'', JStr (the (mesh_mapping (the mguid))))])])])]), s1)
      else (components, s))"

text \<open>Lines 1447-1468: one material slot per resolved material GUID, keyed by its index.\<close>

fun materials_config ::
  "nat \<Rightarrow> string list \<Rightarrow> (string \<rightharpoonup> string) \<Rightarrow> (string \<times> json) list \<Rightarrow> (string \<times> json) list" where
  "materials_config idx [] material_mapping cfg = cfg"
| "materials_config idx (mat_guid # rest) material_mapping cfg =
     materials_config (Suc idx) rest material_mapping
       (if truthy (material_mapping mat_guid)
        then dict_set cfg (''{'' @ str_nat idx @ ''}'')
               (JDict [(''MaterialAsset'',
                  JDict [(''assetHint'', JStr (the (material_mapping mat_guid)))])])
        else cfg)"

definition add_material_component ::
  "(string \<times> json) list \<Rightarrow> string list \<Rightarrow> (string \<rightharpoonup> string) \<Rightarrow> 'a RandomState_scheme
     \<Rightarrow> (string \<times> json) list \<times> 'a RandomState_scheme" where
  "add_material_component components mguids material_mapping s =
     (let cfg = materials_config 0 mguids material_mapping []
      in if mguids \<noteq> [] \<and> cfg \<noteq> [] then
           case generate_component_id s of (cid, s1) \<Rightarrow>
             (dict_set components ''EditorMaterialComponent''
                (JDict [(''$type'', JStr ''EditorMaterialComponent''), (''Id'', JInt cid),
                        (''Controller'',
                         JDict [(''Configuration'', JDict [(''materials'', JDict cfg)])])]), s1)
         else (components, s))"

text \<open>
  Lines 1347-1468 of \<^verbatim>\<open>_create_entity_recursive\<close>: the entity with its editor,
  transform, scale, mesh and material components, before physics and children.
\<close>

definition entity_prefix ::
  "GameObject \<Rightarrow> (string \<times> string) list \<Rightarrow> (string \<rightharpoonup> string) \<Rightarrow> (string \<rightharpoonup> string)
     \<Rightarrow> string option \<Rightarrow> Processor \<Rightarrow> Entity \<times> (string \<times> string) list \<times> Processor" where
  "entity_prefix go entity_id_map material_mapping mesh_mapping parent_entity_id s =
     (case generate_entity_id s of (entity_id, s1) \<Rightarrow>
        let entity_id_map1 = dict_set entity_id_map (file_id go) entity_id;
            conv = convert_to_o3de_coordinates (transform go);
            o3de_transform = fst conv;
            needs_nonuniform = snd conv;
            parent = (case parent_entity_id of
                        Some p \<Rightarrow> p
                      | None \<Rightarrow>
                          if truthy (parent_id go) \<and> dict_has entity_id_map1 (the (parent_id go))
                          then the (map_of entity_id_map1 (the (parent_id go)))
                          else [])
        in case plain_components entity_base_components s1 of (comps0, s2) \<Rightarrow>
           case generate_component_id s2 of (tid, s3) \<Rightarrow>
           let comps1 = dict_set comps0 ''TransformComponent''
                          (transform_component o3de_transform needs_nonuniform parent tid)
           in case add_nonuniform_scale comps1 o3de_transform needs_nonuniform s3 of (comps2, s4) \<Rightarrow>
              case add_mesh_component comps2 (mesh_guid go) mesh_mapping s4 of (comps3, s5) \<Rightarrow>
              case add_material_component comps3 (material_guids go) material_mapping s5 of
                (comps4, s6) \<Rightarrow>
                  (\<lparr>ent_Id = entity_id, ent_Name = name go, ent_Components = comps4\<rparr>,
                   entity_id_map1, s6))"

text \<open>Lines 1491-1501: the child order component, when there is any child.\<close>

definition add_child_order ::
  "(string \<times> json) list \<Rightarrow> string list \<Rightarrow> 'a RandomState_scheme
     \<Rightarrow> (string \<times> json) list \<times> 'a RandomState_scheme" where
  "add_child_order components child_order s =
     (if child_order \<noteq> [] then
        case generate_component_id s of (cid, s1) \<Rightarrow>
          (dict_set components ''EditorEntitySortComponent''
             (JDict [(''$type'', JStr ''EditorEntitySortComponent''), (''Id'', JInt cid),
                     (''Child Entity Order'', JList (map JStr child_order))]), s1)
      else (components, s))"

section \<open>The recursive entity walk of the integrated processor\<close>

text \<open>
  The exception a run can end with. Python stops a recursion that nests deeper than the
  interpreter's limit; the first argument of the recursive functions is the number of
  nested calls of \<^verbatim>\<open>_create_entity_recursive\<close> still allowed.
\<close>

datatype py_error = RecursionError

text \<open>
  What the walk mutates: the two output dictionaries, the id map and the processor. What
  it only reads: the GameObjects of the file and the two asset mappings.
\<close>

record Walk =
  entities_dict :: "(string \<times> Entity) list"
  instances_dict :: "(string \<times> json) list"
  entity_id_map :: "(string \<times> string) list"
  processor :: Processor

record Mappings =
  all_game_objects :: "(string \<times> GameObject) list"
  material_mapping :: "string \<rightharpoonup> string"
  mesh_mapping :: "string \<rightharpoonup> string"

text \<open>
  \<^verbatim>\<open>_create_entity_recursive\<close>, lines 1333-1475, up to the loop over the children: the
  reference of a resolved prefab instance (\<open>Inl\<close>, the function returns it), or the entity
  with its components and the ids of its collider children (\<open>Inr\<close>).
\<close>

definition begin_entity ::
  "GameObject \<Rightarrow> Mappings \<Rightarrow> string option \<Rightarrow> Walk \<Rightarrow> (string + (Entity \<times> string list)) \<times> Walk" where
  "begin_entity go m parent_entity_id w =
     (case nested_instance go parent_entity_id (processor w) of
        (Some (instance_id, inst), s1) \<Rightarrow>
          (Inl (instance_id @ ''/ContainerEntity''),
           w\<lparr>instances_dict := dict_set (instances_dict w) instance_id inst, processor := s1\<rparr>)
      | (None, s1) \<Rightarrow>
          (case entity_prefix go (entity_id_map w) (material_mapping m) (mesh_mapping m)
                  parent_entity_id s1 of
             (entity, entity_id_map1, s2) \<Rightarrow>
          case create_physx_components go entity (mesh_mapping m) (entities_dict w) s2 of
             (collider_child_ids, entity1, entities_dict1, s3) \<Rightarrow>
            (Inr (entity1, collider_child_ids),
             w\<lparr>entities_dict := entities_dict1, entity_id_map := entity_id_map1,
               processor := s3\<rparr>)))"

text \<open>Lines 1491-1501: the child order, then the entity is stored under its id.\<close>

definition finish_entity :: "Entity \<Rightarrow> string list \<Rightarrow> Walk \<Rightarrow> string \<times> Walk" where
  "finish_entity entity child_order w =
     (case add_child_order (ent_Components entity) child_order (processor w) of
        (comps, s1) \<Rightarrow>
          (ent_Id entity,
           w\<lparr>entities_dict :=
               dict_set (entities_dict w) (ent_Id entity) (entity\<lparr>ent_Components := comps\<rparr>),
             processor := s1\<rparr>))"

text \<open>
  \<^verbatim>\<open>_create_entity_recursive\<close> with its loop over \<^verbatim>\<open>go.children_ids\<close> (lines
  1480-1489) as \<open>create_children\<close>.
\<close>

fun create_entity_recursive ::
  "nat \<Rightarrow> GameObject \<Rightarrow> Mappings \<Rightarrow> string option \<Rightarrow> Walk \<Rightarrow> py_error + (string \<times> Walk)"
and create_children ::
  "nat \<Rightarrow> string list \<Rightarrow> Mappings \<Rightarrow> string \<Rightarrow> Walk \<Rightarrow> py_error + (string list \<times> Walk)"
where
  "create_entity_recursive 0 go m parent_entity_id w = Inl RecursionError"
| "create_entity_recursive (Suc depth) go m parent_entity_id w =
     (case begin_entity go m parent_entity_id w of
        (Inl instance_ref, w1) \<Rightarrow> Inr (instance_ref, w1)
      | (Inr (entity, collider_child_ids), w1) \<Rightarrow>
          (case create_children depth (children_ids go) m (ent_Id entity) w1 of
             Inl e \<Rightarrow> Inl e
           | Inr (child_order, w2) \<Rightarrow>
               Inr (finish_entity entity (child_order @ collider_child_ids) w2)))"
| "create_children depth [] m entity_id w = Inr ([], w)"
| "create_children depth (child_id # rest) m entity_id w =
     (case map_of (all_game_objects m) child_id of
        None \<Rightarrow> create_children depth rest m entity_id w
      | Some child_go \<Rightarrow>
          (case create_entity_recursive depth child_go m (Some entity_id) w of
             Inl e \<Rightarrow> Inl e
           | Inr (child_entity_id, w1) \<Rightarrow>
               (case create_children depth rest m entity_id w1 of
                  Inl e \<Rightarrow> Inl e
                | Inr (child_order, w2) \<Rightarrow>
                    Inr ((if child_entity_id \<noteq> [] then [child_entity_id] else [])
                           @ child_order, w2))))"

text \<open>\<^verbatim>\<open>_create_container_entity\<close>.\<close>

definition create_container_entity ::
  "'a GameObject_core_scheme \<Rightarrow> 'b RandomState_scheme \<Rightarrow> Entity \<times> 'b RandomState_scheme" where
  "create_container_entity root_go s =
     (case plain_components [''EditorDisabledCompositionComponent'',
                             ''EditorEntityIconComponent''] s of (cs1, s1) \<Rightarrow>
      case generate_component_id s1 of (sort_id, s2) \<Rightarrow>
      case plain_components [''EditorInspectorComponent'', ''EditorLockComponent''] s2 of
        (cs2, s3) \<Rightarrow>
      case generate_component_id s3 of (only_id, s4) \<Rightarrow>
      case plain_components [''EditorPendingCompositionComponent'', ''EditorPrefabComponent'',
                             ''EditorVisibilityComponent''] s4 of (cs3, s5) \<Rightarrow>
      case generate_component_id s5 of (tid, s6) \<Rightarrow>
        (\<lparr>ent_Id = ''ContainerEntity'', ent_Name = name root_go,
          ent_Components =
            cs1 @
            [(''EditorEntitySortComponent'',
              JDict [(''$type'', JStr ''EditorEntitySortComponent''), (''Id'', JInt sort_id),
                     (''Child Entity Order'', JList [])])] @
            cs2 @
            [(''EditorOnlyEntityComponent'',
              JDict [(''$type'', JStr ''EditorOnlyEntityComponent''), (''Id'', JInt only_id),
                     (''IsEditorOnly'', JBool True)])] @
            cs3 @
            [(''TransformComponent'',
              JDict [(''$type'', JStr transform_type), (''Id'', JInt tid),
                     (''Parent Entity'', JStr [])])]\<rparr>, s6))"

text \<open>
  \<^verbatim>\<open>container["Components"]["EditorEntitySortComponent"]["Child Entity Order"] = order\<close>.
\<close>

definition set_child_entity_order :: "Entity \<Rightarrow> string list \<Rightarrow> Entity" where
  "set_child_entity_order container order =
     (case map_of (ent_Components container) ''EditorEntitySortComponent'' of
        Some (JDict sort_cfg) \<Rightarrow>
          container\<lparr>ent_Components :=
            dict_set (ent_Components container) ''EditorEntitySortComponent''
              (JDict (dict_set sort_cfg ''Child Entity Order'' (JList (map JStr order))))\<rparr>
      | _ \<Rightarrow> container)"

definition entity_json :: "Entity \<Rightarrow> json" where
  "entity_json e =
     JDict [(''Id'', JStr (ent_Id e)), (''Name'', JStr (ent_Name e)),
            (''Components'', JDict (ent_Components e))]"

text \<open>What \<^verbatim>\<open>self.log\<close> receives from \<^verbatim>\<open>_create_o3de_prefab\<close>.\<close>

datatype log_message = NoRootGameObject | MultipleRootGameObjects nat

text \<open>
  \<^verbatim>\<open>_create_o3de_prefab\<close>: the document written to the output path (\<open>None\<close> when the
  function returns before writing), the messages logged and the processor. The first
  argument bounds the recursion as above.
\<close>

definition create_o3de_prefab ::
  "nat \<Rightarrow> GameObject \<Rightarrow> Mappings \<Rightarrow> Processor
     \<Rightarrow> py_error + (json option \<times> log_message list \<times> Processor)" where
  "create_o3de_prefab depth root_go m s =
     (case create_container_entity root_go s of (container, s1) \<Rightarrow>
        let root_entities = filter (\<lambda>go. parent_id go = None) (map snd (all_game_objects m))
        in case root_entities of
             [] \<Rightarrow> Inr (None, [NoRootGameObject], s1)
           | root_entity # others \<Rightarrow>
               let logged = (if others \<noteq> [] then [MultipleRootGameObjects (length root_entities)]
                             else [])
               in case create_entity_recursive depth root_entity m (Some ''ContainerEntity'')
                         \<lparr>entities_dict = [], instances_dict = [], entity_id_map = [],
                          processor = s1\<rparr> of
                    Inl e \<Rightarrow> Inl e
                  | Inr (root_entity_id, w) \<Rightarrow>
                      let container1 = (if root_entity_id \<noteq> []
                                        then set_child_entity_order container [root_entity_id]
                                        else container)
                      in Inr (Some (JDict [(''ContainerEntity'', entity_json container1),
                                           (''Entities'',
                                            JDict (map (\<lambda>(k, e). (k, entity_json e)) (entities_dict w))),
                                           (''Instances'', JDict (instances_dict w))]),
                              logged, processor w))"

section \<open>Properties\<close>

text \<open>
  C1. For every Unity transform with position (x,y,z), rotation (qx,qy,qz,qw) and scale
  (sx,sy,sz), the conversion returns position (-x, z, y), rotation (-qx, qz, qy, qw)
  with the scalar part unchanged, and scale (sx, sz, sy).
\<close>

theorem convert_axis_remap:
  "fst (convert_to_o3de_coordinates
          \<lparr>position = (x, y, z), rotation = (qx, qy, qz, qw), scale = (sx, sy, sz)\<rparr>)
   = \<lparr>position = (- x, z, y), rotation = (- qx, qz, qy, qw), scale = (sx, sz, sy)\<rparr>"
  by (simp add: convert_to_o3de_coordinates_def Let_def)

subsection \<open>Dictionaries\<close>

lemma map_of_dict_set:
  "map_of (dict_set d k v) k' = (if k' = k then Some v else map_of d k')"
  by (induction d) auto

lemma keys_dict_set:
  "map fst (dict_set d k v) = (if k \<in> set (map fst d) then map fst d else map fst d @ [k])"
  by (induction d) (auto simp: rev_image_eqI)

lemma map_of_if_dict_set:
  "map_of (if b then dict_set d k v else d) k' = (if b \<and> k' = k then Some v else map_of d k')"
  by (simp add: map_of_dict_set)

lemma keys_if_dict_set:
  "map fst (if b then dict_set d k v else d) =
     (if b \<and> k \<notin> set (map fst d) then map fst d @ [k] else map fst d)"
  by (simp add: keys_dict_set)


lemma distinct_dict_set:
  "distinct (map fst d) \<Longrightarrow> distinct (map fst (dict_set d k v))"
  by (simp add: keys_dict_set)

lemma length_dict_set:
  "length (dict_set d k v) = (if k \<in> set (map fst d) then length d else Suc (length d))"
  by (induction d) (auto simp: rev_image_eqI)

subsection \<open>Decimal numerals\<close>

lemma digit_val_char: "d < 10 \<Longrightarrow> digit_val (digit_char d) = d"
proof -
  assume "d < 10"
  then have "d \<in> {0, 1, 2, 3, 4, 5, 6, 7, 8, 9}" by auto
  then show ?thesis
    by (auto simp: digit_val_def digit_char_def)
qed

lemma val_str_snoc: "val_str (cs @ [c]) = 10 * val_str cs + digit_val c"
  by (simp add: val_str_def)

lemma val_str_nat: "val_str (str_nat n) = n"
proof (induction n rule: str_nat.induct)
  case (1 n)
  show ?case
  proof (cases "n < 10")
    case True
    then show ?thesis
      by (simp add: str_nat.simps[of n] val_str_def digit_val_char)
  next
    case False
    then have "val_str (str_nat n) =
        10 * val_str (str_nat (n div 10)) + digit_val (digit_char (n mod 10))"
      by (simp add: str_nat.simps[of n] val_str_snoc)
    also have "\<dots> = 10 * (n div 10) + n mod 10"
      using 1 False by (simp add: digit_val_char)
    finally show ?thesis by simp
  qed
qed

lemma str_nat_inj: "str_nat a = str_nat b \<Longrightarrow> a = b"
  by (metis val_str_nat)

subsection \<open>Collider components\<close>

lemma entity_id_of_inj: "entity_id_of a = entity_id_of b \<Longrightarrow> a = b"
  by (simp add: entity_id_of_def str_nat_inj)

lemma generate_entity_id_eq:
  "generate_entity_id s =
     (entity_id_of (Suc (entity_id_counter s)), s\<lparr>entity_id_counter := Suc (entity_id_counter s)\<rparr>)"
  by (simp add: generate_entity_id_def entity_id_of_def Let_def)

lemma add_collider_attachments:
  "collider_attachments comps = 0 \<Longrightarrow>
   collider_attachments (fst (add_collider comps c mm go s)) = 1"
  by (cases "shape c")
     (auto simp: add_collider_def add_shape_collider_def add_mesh_collider_def
        collider_attachments_def is_collider_key_def keys_dict_set Let_def split_def
        filter_empty_conv)

lemma add_collider_lookup:
  "\<not> is_collider_key k \<Longrightarrow> k \<notin> {''EditorBoxShapeComponent'', ''EditorSphereShapeComponent'', ''EditorCapsuleShapeComponent''} \<Longrightarrow>
   map_of (fst (add_collider comps c mm go s)) k = map_of comps k"
  by (cases "shape c")
     (auto simp: add_collider_def add_shape_collider_def add_mesh_collider_def
        is_collider_key_def map_of_dict_set Let_def split_def)

lemma add_collider_counter:
  "entity_id_counter (snd (add_collider comps c mm go (s::Processor))) = entity_id_counter s"
  by (cases "shape c")
     (auto simp: add_collider_def add_shape_collider_def add_mesh_collider_def
        generate_component_id_def Let_def split_def)

lemma generate_component_id_counter:
  "entity_id_counter (snd (generate_component_id (s::Processor))) = entity_id_counter s"
  by (simp add: generate_component_id_def)

lemma make_bare_entity_props:
  fixes s :: Processor
  shows "ent_Id (fst (make_bare_entity cid nm eid s)) = cid"
    and "ent_Name (fst (make_bare_entity cid nm eid s)) = nm"
    and "parent_link (fst (make_bare_entity cid nm eid s)) = Some (JStr eid)"
    and "collider_attachments (ent_Components (fst (make_bare_entity cid nm eid s))) = 0"
    and "entity_id_counter (snd (make_bare_entity cid nm eid s)) = entity_id_counter s"
  by (simp_all add: make_bare_entity_def split_def plain_component_def generate_component_id_def
        parent_link_def collider_attachments_def is_collider_key_def)

lemma parent_link_marked:
  "parent_link (ch\<lparr>ent_Components := fst (add_collider (dict_set (ent_Components ch) ''EditorStaticRigidBodyComponent'' v) c mm go s)\<rparr>)
     = parent_link ch"
  by (simp add: parent_link_def add_collider_lookup is_collider_key_def map_of_dict_set)

lemma attachments_marked:
  "collider_attachments (dict_set comps ''EditorStaticRigidBodyComponent'' v) = collider_attachments comps"
  by (simp add: collider_attachments_def keys_dict_set is_collider_key_def)

lemma static_marker_kept:
  "has_static_marker (ch\<lparr>ent_Components := fst (add_collider (dict_set comps ''EditorStaticRigidBodyComponent'' (static_rigid_body sid)) c mm go s)\<rparr>)"
  by (auto simp: has_static_marker_def add_collider_lookup is_collider_key_def map_of_dict_set)

lemma collider_loop_children:
  fixes s :: Processor
  assumes "0 < idx"
  shows "case collider_loop go eid mm idx cs comps ids ed s of (comps', ids', ed', s') \<Rightarrow>
      comps' = comps
      \<and> ids' = ids @ map entity_id_of [Suc (entity_id_counter s) ..< Suc (entity_id_counter s) + length cs]
      \<and> entity_id_counter s' = entity_id_counter s + length cs
      \<and> (\<forall>k. k \<notin> entity_id_of ` {Suc (entity_id_counter s) ..< Suc (entity_id_counter s) + length cs}
             \<longrightarrow> map_of ed' k = map_of ed k)
      \<and> (\<forall>j. Suc (entity_id_counter s) \<le> j \<and> j < Suc (entity_id_counter s) + length cs \<longrightarrow>
             (\<exists>ch. map_of ed' (entity_id_of j) = Some ch
                   \<and> is_collider_child (name go) eid (idx + j - Suc (entity_id_counter s)) (entity_id_of j) ch
                   \<and> has_static_marker ch))"
  using assms
proof (induction cs arbitrary: idx ids ed s)
  case Nil
  then show ?case by auto
next
  case (Cons c rest)
  define n where "n = entity_id_counter s"
  define child_id where "child_id = entity_id_of (Suc n)"
  define s1 where "s1 = s\<lparr>entity_id_counter := Suc n\<rparr>"
  define mb where "mb = make_bare_entity child_id (name go @ ''_Collider_'' @ str_nat idx) eid s1"
  define child where "child = fst mb"
  define s2 where "s2 = snd mb"
  define sid where "sid = fst (generate_component_id s2)"
  define s3 where "s3 = snd (generate_component_id s2)"
  define marked where "marked = dict_set (ent_Components child) ''EditorStaticRigidBodyComponent'' (static_rigid_body sid)"
  define ac where "ac = add_collider marked c mm go s3"
  define ch where "ch = child\<lparr>ent_Components := fst ac\<rparr>"
  define s5 where "s5 = (snd ac)\<lparr>total_colliders := total_colliders (snd ac) + 1\<rparr>"
  define ed1 where "ed1 = dict_set ed child_id ch"
  have step: "collider_loop go eid mm idx (c # rest) comps ids ed s
      = collider_loop go eid mm (Suc idx) rest comps (ids @ [child_id]) ed1 s5"
    using Cons.prems
    by (simp add: generate_entity_id_eq split_def Let_def n_def child_id_def s1_def mb_def
        child_def s2_def sid_def s3_def marked_def ac_def ch_def s5_def ed1_def)
  have cnt: "entity_id_counter s5 = Suc n"
    by (simp add: s5_def ac_def add_collider_counter s3_def generate_component_id_counter
        s2_def mb_def make_bare_entity_props s1_def)
  have chp: "is_collider_child (name go) eid idx child_id ch"
    unfolding is_collider_child_def ch_def ac_def marked_def
    by (simp add: parent_link_marked add_collider_attachments attachments_marked
        child_def mb_def make_bare_entity_props)
  have chm: "has_static_marker ch"
    unfolding ch_def ac_def marked_def by (rule static_marker_kept)
  obtain comps' ids' ed' s' where
    res: "collider_loop go eid mm (Suc idx) rest comps (ids @ [child_id]) ed1 s5 = (comps', ids', ed', s')"
    by (cases "collider_loop go eid mm (Suc idx) rest comps (ids @ [child_id]) ed1 s5") auto
  have IHall: "comps' = comps
      \<and> ids' = (ids @ [child_id]) @ map entity_id_of [Suc (Suc n) ..< Suc (Suc n) + length rest]
      \<and> entity_id_counter s' = Suc n + length rest
      \<and> (\<forall>k. k \<notin> entity_id_of ` {Suc (Suc n) ..< Suc (Suc n) + length rest}
             \<longrightarrow> map_of ed' k = map_of ed1 k)
      \<and> (\<forall>j. Suc (Suc n) \<le> j \<and> j < Suc (Suc n) + length rest \<longrightarrow>
             (\<exists>ch. map_of ed' (entity_id_of j) = Some ch
                   \<and> is_collider_child (name go) eid (Suc idx + j - Suc (Suc n)) (entity_id_of j) ch
                   \<and> has_static_marker ch))"
    using Cons.IH[where idx = "Suc idx" and ids = "ids @ [child_id]" and ed = ed1 and s = s5] res cnt by simp
  note IH1 = IHall[THEN conjunct1]
  note IH2 = IHall[THEN conjunct2, THEN conjunct1]
  note IH3 = IHall[THEN conjunct2, THEN conjunct2, THEN conjunct1]
  note IH4 = IHall[THEN conjunct2, THEN conjunct2, THEN conjunct2, THEN conjunct1, rule_format]
  note IH5 = IHall[THEN conjunct2, THEN conjunct2, THEN conjunct2, THEN conjunct2, rule_format]
  have upt: "[Suc n ..< Suc n + length (c # rest)] = Suc n # [Suc (Suc n) ..< Suc (Suc n) + length rest]"
    using upt_conv_Cons[of "Suc n" "Suc (Suc n) + length rest"] by simp
  have fresh: "child_id \<notin> entity_id_of ` {Suc (Suc n) ..< Suc (Suc n) + length rest}"
  proof
    assume "child_id \<in> entity_id_of ` {Suc (Suc n) ..< Suc (Suc n) + length rest}"
    then obtain j where j: "Suc (Suc n) \<le> j" and e: "entity_id_of (Suc n) = entity_id_of j"
      by (auto simp: child_id_def)
    from e have "Suc n = j" by (rule entity_id_of_inj)
    with j show False by simp
  qed
  have here: "map_of ed' child_id = Some ch"
    using IH4[OF fresh] by (simp add: ed1_def map_of_dict_set)
  have keep: "map_of ed' k = map_of ed k"
    if k: "k \<notin> entity_id_of ` {Suc n ..< Suc n + length (c # rest)}" for k
  proof -
    have sub: "{Suc (Suc n) ..< Suc (Suc n) + length rest} \<subseteq> {Suc n ..< Suc n + length (c # rest)}"
      by auto
    have mem: "Suc n \<in> {Suc n ..< Suc n + length (c # rest)}"
      by simp
    have k1: "k \<notin> entity_id_of ` {Suc (Suc n) ..< Suc (Suc n) + length rest}"
      using k sub by (meson image_mono subsetD)
    have k2: "k \<noteq> child_id"
      using k mem unfolding child_id_def by (meson imageI)
    show ?thesis
      using IH4[OF k1] k2 by (simp add: ed1_def map_of_dict_set)
  qed
  have each: "\<exists>ch. map_of ed' (entity_id_of j) = Some ch
                   \<and> is_collider_child (name go) eid (idx + j - Suc n) (entity_id_of j) ch
                   \<and> has_static_marker ch"
    if j: "Suc n \<le> j \<and> j < Suc n + length (c # rest)" for j
  proof (cases "j = Suc n")
    case True
    have a: "idx + j - Suc n = idx" using True by simp
    have b: "entity_id_of j = child_id" using True by (simp add: child_id_def)
    show ?thesis
      unfolding a b using here chp chm by (intro exI[of _ ch]) simp
  next
    case False
    then have j2: "Suc (Suc n) \<le> j \<and> j < Suc (Suc n) + length rest" using j by simp
    then have e: "Suc idx + j - Suc (Suc n) = idx + j - Suc n" by simp
    show ?thesis using IH5[OF j2] unfolding e .
  qed
  have r1: "ids' = ids @ map entity_id_of [Suc n ..< Suc n + length (c # rest)]"
    unfolding upt using IH2 by (simp add: child_id_def)
  have r2: "entity_id_counter s' = n + length (c # rest)"
    using IH3 by simp
  show ?case
    unfolding step res n_def[symmetric] prod.case
    using IH1 r1 r2 keep each by blast
qed

lemma filter_keys_dict_set_other:
  "\<not> P k \<Longrightarrow> filter P (map fst (dict_set d k v)) = filter P (map fst d)"
  by (simp add: keys_dict_set)

lemma collider_loop_first:
  "collider_loop go eid mm 0 (c # rest) comps ids ed s =
     collider_loop go eid mm (Suc 0) rest (fst (add_collider comps c mm go s)) ids ed
       ((snd (add_collider comps c mm go s))\<lparr>total_colliders := total_colliders (snd (add_collider comps c mm go s)) + 1\<rparr>)"
  by (simp add: split_def)

lemma physx_result:
  fixes s :: Processor and entity :: Entity and mm :: "string \<rightharpoonup> string"
    and go :: "'a GameObject_scheme" and c0 :: Collider
  assumes cs: "colliders go = c0 # rest"
  defines "n \<equiv> entity_id_counter s"
  defines "comps1 \<equiv> fst (add_collider (ent_Components entity) c0 mm go s)"
  shows "case create_physx_components go entity mm ed s of (child_ids, entity', ed', s') \<Rightarrow>
      ent_Id entity' = ent_Id entity \<and> ent_Name entity' = ent_Name entity
      \<and> filter is_collider_key (map fst (ent_Components entity')) = filter is_collider_key (map fst comps1)
      \<and> (\<forall>k. k \<noteq> ''EditorRigidBodyComponent'' \<and> k \<noteq> ''EditorStaticRigidBodyComponent''
             \<longrightarrow> map_of (ent_Components entity') k = map_of comps1 k)
      \<and> (if has_rigidbody go
          then map_of (ent_Components entity') ''EditorStaticRigidBodyComponent''
               = map_of comps1 ''EditorStaticRigidBodyComponent''
          else has_static_marker entity')
      \<and> child_ids = map entity_id_of [Suc n ..< Suc n + length rest]
      \<and> entity_id_counter s' = n + length rest
      \<and> (\<forall>k. k \<notin> entity_id_of ` {Suc n ..< Suc n + length rest} \<longrightarrow> map_of ed' k = map_of ed k)
      \<and> (\<forall>j. Suc n \<le> j \<and> j < Suc n + length rest \<longrightarrow>
             (\<exists>ch. map_of ed' (entity_id_of j) = Some ch
                   \<and> is_collider_child (name go) (ent_Id entity) (Suc 0 + j - Suc n) (entity_id_of j) ch
                   \<and> has_static_marker ch))"
proof -
  define s1 where "s1 = (snd (add_collider (ent_Components entity) c0 mm go s))\<lparr>total_colliders := total_colliders (snd (add_collider (ent_Components entity) c0 mm go s)) + 1\<rparr>"
  have c1: "entity_id_counter s1 = n"
    by (simp add: s1_def add_collider_counter n_def)
  obtain comps' ids' ed' s' where
    res: "collider_loop go (ent_Id entity) mm (Suc 0) rest comps1 [] ed s1 = (comps', ids', ed', s')"
    by (cases "collider_loop go (ent_Id entity) mm (Suc 0) rest comps1 [] ed s1") auto
  have L: "comps' = comps1
      \<and> ids' = [] @ map entity_id_of [Suc n ..< Suc n + length rest]
      \<and> entity_id_counter s' = n + length rest
      \<and> (\<forall>k. k \<notin> entity_id_of ` {Suc n ..< Suc n + length rest} \<longrightarrow> map_of ed' k = map_of ed k)
      \<and> (\<forall>j. Suc n \<le> j \<and> j < Suc n + length rest \<longrightarrow>
             (\<exists>ch. map_of ed' (entity_id_of j) = Some ch
                   \<and> is_collider_child (name go) (ent_Id entity) (Suc 0 + j - Suc n) (entity_id_of j) ch
                   \<and> has_static_marker ch))"
    using collider_loop_children[where idx = "Suc 0" and go = go and eid = "ent_Id entity" and mm = mm
        and cs = rest and comps = comps1 and ids = "[]" and ed = ed and s = s1] res c1
    by (simp del: upt_Suc)
  have loop: "collider_loop go (ent_Id entity) mm 0 (colliders go) (ent_Components entity) [] ed s
      = (comps1, ids', ed', s')"
    using res L by (simp add: cs comps1_def s1_def split_def del: upt_Suc)
  have nk: "\<not> is_collider_key ''EditorRigidBodyComponent''" "\<not> is_collider_key ''EditorStaticRigidBodyComponent''"
    by (simp_all add: is_collider_key_def)
  have cnt: "entity_id_counter (snd (generate_component_id s')) = entity_id_counter s'"
    by (rule generate_component_id_counter)
  show ?thesis
    unfolding create_physx_components_def loop
    using L nk cnt
    by (auto simp: cs split_def keys_dict_set map_of_dict_set is_collider_key_def
        has_static_marker_def simp del: upt_Suc)
qed

subsection \<open>Collider fan-out\<close>

lemmas physx_eval_defs =
  create_physx_components_def add_collider_def add_shape_collider_def add_mesh_collider_def
  make_bare_entity_def generate_entity_id_def generate_component_id_def plain_component_def
  static_rigid_body_def any_above_tolerance_def material_slots_def rigid_body_config_def
  collider_mesh_guid_def example_processor_def example_entity_def example_node_def
  example_box_def example_sphere_def example_capsule_def transform_type_def
  str_nat.simps digit_char_def Let_def



subsection \<open>The static body marker\<close>

lemma collider_children_always_static:
  fixes s :: Processor and go :: GameObject
  assumes "colliders go = c0 # rest"
    and "map_of (ent_Components entity) ''EditorStaticRigidBodyComponent'' = None"
    and "create_physx_components go entity mm ed s = (child_ids, primary, ed', s')"
  shows "has_static_marker primary = (\<not> has_rigidbody go)"
    and "cid \<in> set child_ids \<Longrightarrow> \<exists>ch. map_of ed' cid = Some ch \<and> has_static_marker ch"
proof -
  define n where "n = entity_id_counter s"
  define comps1 where "comps1 = fst (add_collider (ent_Components entity) c0 mm go s)"
  have R: "ent_Id primary = ent_Id entity \<and> ent_Name primary = ent_Name entity
      \<and> filter is_collider_key (map fst (ent_Components primary)) = filter is_collider_key (map fst comps1)
      \<and> (\<forall>k. k \<noteq> ''EditorRigidBodyComponent'' \<and> k \<noteq> ''EditorStaticRigidBodyComponent''
             \<longrightarrow> map_of (ent_Components primary) k = map_of comps1 k)
      \<and> (if has_rigidbody go
          then map_of (ent_Components primary) ''EditorStaticRigidBodyComponent''
               = map_of comps1 ''EditorStaticRigidBodyComponent''
          else has_static_marker primary)
      \<and> child_ids = map entity_id_of [Suc n ..< Suc n + length rest]
      \<and> entity_id_counter s' = n + length rest
      \<and> (\<forall>k. k \<notin> entity_id_of ` {Suc n ..< Suc n + length rest} \<longrightarrow> map_of ed' k = map_of ed k)
      \<and> (\<forall>j. Suc n \<le> j \<and> j < Suc n + length rest \<longrightarrow>
             (\<exists>ch. map_of ed' (entity_id_of j) = Some ch
                   \<and> is_collider_child (name go) (ent_Id entity) (Suc 0 + j - Suc n) (entity_id_of j) ch
                   \<and> has_static_marker ch))"
    using physx_result[OF assms(1), of entity mm s ed] assms(3)
    unfolding n_def comps1_def by (simp del: upt_Suc)
  note R5 = R[THEN conjunct2, THEN conjunct2, THEN conjunct2, THEN conjunct2, THEN conjunct1]
  note R6 = R[THEN conjunct2, THEN conjunct2, THEN conjunct2, THEN conjunct2, THEN conjunct2,
      THEN conjunct1]
  note R9 = R[THEN conjunct2, THEN conjunct2, THEN conjunct2, THEN conjunct2, THEN conjunct2,
      THEN conjunct2, THEN conjunct2, THEN conjunct2, rule_format]
  have k: "\<not> is_collider_key ''EditorStaticRigidBodyComponent''"
    "''EditorStaticRigidBodyComponent'' \<notin> {''EditorBoxShapeComponent'',
        ''EditorSphereShapeComponent'', ''EditorCapsuleShapeComponent''}"
    by (simp_all add: is_collider_key_def)
  have c1: "map_of comps1 ''EditorStaticRigidBodyComponent'' = None"
    unfolding comps1_def add_collider_lookup[OF k] by (rule assms(2))
  show "has_static_marker primary = (\<not> has_rigidbody go)"
  proof (cases "has_rigidbody go")
    case True
    then have "map_of (ent_Components primary) ''EditorStaticRigidBodyComponent'' = None"
      using R5 c1 by simp
    then show ?thesis using True by (simp add: has_static_marker_def)
  next
    case False
    then show ?thesis using R5 by simp
  qed
  show "\<exists>ch. map_of ed' cid = Some ch \<and> has_static_marker ch" if "cid \<in> set child_ids"
  proof -
    from that obtain j where j: "Suc n \<le> j \<and> j < Suc n + length rest" and c: "cid = entity_id_of j"
      unfolding R6 by (auto simp del: upt_Suc)
    from R9[OF j] show ?thesis unfolding c by blast
  qed
qed

text \<open>
  C3 at a node with a rigidbody and two colliders: the primary entity has no static
  body marker, its collider child, created for the second collider, has one.
\<close>

theorem collider_child_static_despite_rigidbody:
  "has_rigidbody (example_node True [example_box, example_sphere])
   \<and> (case create_physx_components (example_node True [example_box, example_sphere])
              example_entity Map.empty [] example_processor of
         (child_ids, primary, ed', s') \<Rightarrow>
           child_ids = [''Entity_[1000002]'']
           \<and> map fst ed' = [''Entity_[1000002]'']
           \<and> map_of (ent_Components primary) ''EditorStaticRigidBodyComponent'' = None
           \<and> map (\<lambda>e. map_of (ent_Components (snd e)) ''EditorStaticRigidBodyComponent'') ed'
               = [Some (static_rigid_body 7)])"
  by (simp add: physx_eval_defs)

subsection \<open>Non-uniform scale\<close>









subsection \<open>Rigid body constraints\<close>

lemma and_bit_int:
  "((c::int) AND 2 \<noteq> 0) = bit c 1"
  "((c::int) AND 4 \<noteq> 0) = bit c 2"
  "((c::int) AND 8 \<noteq> 0) = bit c 3"
  "((c::int) AND 16 \<noteq> 0) = bit c 4"
  "((c::int) AND 32 \<noteq> 0) = bit c 5"
  "((c::int) AND 64 \<noteq> 0) = bit c 6"
  using bit_iff_and_push_bit_not_eq_0[of c 1] bit_iff_and_push_bit_not_eq_0[of c 2]
    bit_iff_and_push_bit_not_eq_0[of c 3] bit_iff_and_push_bit_not_eq_0[of c 4]
    bit_iff_and_push_bit_not_eq_0[of c 5] bit_iff_and_push_bit_not_eq_0[of c 6]
  by simp_all

lemma lock_lookup:
  fixes rb :: RigidbodyData
  defines "cfg \<equiv> rigid_body_config (Some rb)" and "c \<equiv> constraints rb"
  shows "map_of cfg ''Lock Linear X'' = (if bit c 1 then Some (JBool True) else None)"
    and "map_of cfg ''Lock Linear Z'' = (if bit c 2 then Some (JBool True) else None)"
    and "map_of cfg ''Lock Linear Y'' = (if bit c 3 then Some (JBool True) else None)"
    and "map_of cfg ''Lock Angular X'' = (if bit c 4 then Some (JBool True) else None)"
    and "map_of cfg ''Lock Angular Z'' = (if bit c 5 then Some (JBool True) else None)"
    and "map_of cfg ''Lock Angular Y'' = (if bit c 6 then Some (JBool True) else None)"
proof -
  show "map_of cfg ''Lock Linear X'' = (if bit c 1 then Some (JBool True) else None)"
    unfolding cfg_def c_def
    by (cases "constraints rb = 0")
       (simp_all add: rigid_body_config_def Let_def map_of_if_dict_set and_bit_int)
  show "map_of cfg ''Lock Linear Z'' = (if bit c 2 then Some (JBool True) else None)"
    unfolding cfg_def c_def
    by (cases "constraints rb = 0")
       (simp_all add: rigid_body_config_def Let_def map_of_if_dict_set and_bit_int)
  show "map_of cfg ''Lock Linear Y'' = (if bit c 3 then Some (JBool True) else None)"
    unfolding cfg_def c_def
    by (cases "constraints rb = 0")
       (simp_all add: rigid_body_config_def Let_def map_of_if_dict_set and_bit_int)
  show "map_of cfg ''Lock Angular X'' = (if bit c 4 then Some (JBool True) else None)"
    unfolding cfg_def c_def
    by (cases "constraints rb = 0")
       (simp_all add: rigid_body_config_def Let_def map_of_if_dict_set and_bit_int)
  show "map_of cfg ''Lock Angular Z'' = (if bit c 5 then Some (JBool True) else None)"
    unfolding cfg_def c_def
    by (cases "constraints rb = 0")
       (simp_all add: rigid_body_config_def Let_def map_of_if_dict_set and_bit_int)
  show "map_of cfg ''Lock Angular Y'' = (if bit c 6 then Some (JBool True) else None)"
    unfolding cfg_def c_def
    by (cases "constraints rb = 0")
       (simp_all add: rigid_body_config_def Let_def map_of_if_dict_set and_bit_int)
qed

lemma lock_keys_only_y:
  "map fst (rigid_body_config (Some (rb\<lparr>constraints := 4\<rparr>))) =
     [''Mass'', ''Linear damping'', ''Angular damping'', ''Gravity Enabled'']
     @ (if is_kinematic rb then [''Kinematic''] else []) @ [''Lock Linear Z'']"
  by (simp add: rigid_body_config_def Let_def keys_dict_set)

lemma rigid_body_component_config:
  "\<exists>cid. map_of (ent_Components (fst (snd (create_physx_components
              (go\<lparr>has_rigidbody := True, rigidbody_data := Some rb\<rparr>) entity mm
              ed s)))) ''EditorRigidBodyComponent''
     = Some (JDict [(''$type'', JStr ''EditorRigidBodyComponent''), (''Id'', JInt cid),
                    (''Configuration'', JDict (rigid_body_config (Some rb)))])"
  by (simp add: create_physx_components_def split_def map_of_dict_set)

text \<open>
  C5. A rigidbody whose constraint bitmask is 4 (lock Y translation only) gets the
  configuration keys Mass, Linear damping, Angular damping, Gravity Enabled, Kinematic
  when kinematic, and Lock Linear Z set to true: no other lock flag. For every bitmask
  the X bits 2 and 16 set the X locks, the Y bits 4 and 32 set the Z locks and the Z
  bits 8 and 64 set the Y locks, and a lock whose bit is clear is absent. The
  configuration is the one stored in the entity's EditorRigidBodyComponent.
\<close>

theorem constraint_bits_swap_y_z:
  fixes rb :: RigidbodyData and go :: GameObject
  shows
  "map fst (rigid_body_config (Some (rb\<lparr>constraints := 4\<rparr>))) =
     [''Mass'', ''Linear damping'', ''Angular damping'', ''Gravity Enabled'']
     @ (if is_kinematic rb then [''Kinematic''] else []) @ [''Lock Linear Z'']
   \<and> map_of (rigid_body_config (Some (rb\<lparr>constraints := 4\<rparr>))) ''Lock Linear Z''
       = Some (JBool True)
   \<and> map_of (rigid_body_config (Some rb)) ''Lock Linear X''
       = (if bit (constraints rb) 1 then Some (JBool True) else None)
   \<and> map_of (rigid_body_config (Some rb)) ''Lock Linear Z''
       = (if bit (constraints rb) 2 then Some (JBool True) else None)
   \<and> map_of (rigid_body_config (Some rb)) ''Lock Linear Y''
       = (if bit (constraints rb) 3 then Some (JBool True) else None)
   \<and> map_of (rigid_body_config (Some rb)) ''Lock Angular X''
       = (if bit (constraints rb) 4 then Some (JBool True) else None)
   \<and> map_of (rigid_body_config (Some rb)) ''Lock Angular Z''
       = (if bit (constraints rb) 5 then Some (JBool True) else None)
   \<and> map_of (rigid_body_config (Some rb)) ''Lock Angular Y''
       = (if bit (constraints rb) 6 then Some (JBool True) else None)
   \<and> (\<exists>cid. map_of (ent_Components (fst (snd (create_physx_components
              (go\<lparr>has_rigidbody := True, rigidbody_data := Some rb\<rparr>) entity mm
              ed s)))) ''EditorRigidBodyComponent''
        = Some (JDict [(''$type'', JStr ''EditorRigidBodyComponent''), (''Id'', JInt cid),
                       (''Configuration'', JDict (rigid_body_config (Some rb)))]))"
  using lock_lookup[of rb] lock_lookup(2)[of "rb\<lparr>constraints := 4\<rparr>"]
    lock_keys_only_y[of rb]
    rigid_body_component_config[where go = go and rb = rb and entity = entity
      and mm = mm and ed = ed and s = s]
  by simp

theorem constraint_bits_swap_y_z_witness:
  "map fst (rigid_body_config (Some \<lparr>mass = 2, drag = 0, angular_drag = 5 / 100,
       use_gravity = True, is_kinematic = False, constraints = 4\<rparr>)) =
     [''Mass'', ''Linear damping'', ''Angular damping'', ''Gravity Enabled'', ''Lock Linear Z'']
   \<and> map_of (rigid_body_config (Some \<lparr>mass = 2, drag = 0, angular_drag = 5 / 100,
       use_gravity = True, is_kinematic = False, constraints = 4\<rparr>)) ''Lock Linear Y'' = None"
  using constraint_bits_swap_y_z
    [of "\<lparr>mass = 2, drag = 0, angular_drag = 5 / 100,
          use_gravity = True, is_kinematic = False, constraints = 4\<rparr>"]
  by simp

subsection \<open>The GUID index\<close>

lemma foldl_index_lookup:
  "map_of (foldl (index_step fs) acc ms) g =
     (case filter (\<lambda>m. case indexed_entry fs m of None \<Rightarrow> False | Some (g', a) \<Rightarrow> g' = g) ms of
        [] \<Rightarrow> map_of acc g
      | m # rest \<Rightarrow> Some (asset_file_of (last (m # rest))))"
proof (induction ms arbitrary: acc)
  case Nil
  then show ?case by simp
next
  case (Cons m ms)
  show ?case
  proof (cases "indexed_entry fs m")
    case None
    then show ?thesis
      using Cons.IH[of acc] by (simp add: index_step_def)
  next
    case (Some e)
    obtain g' a where e: "e = (g', a)" by (cases e)
    have a: "a = asset_file_of m"
      using Some e by (auto simp: indexed_entry_def Let_def split: option.splits if_splits)
    show ?thesis
      using Cons.IH[of "dict_set acc g' a"] Some e a
      by (auto simp: index_step_def map_of_dict_set split: list.splits)
  qed
qed

lemma foldl_index_distinct:
  "distinct (map fst acc) \<Longrightarrow> distinct (map fst (foldl (index_step fs) acc ms))"
proof (induction ms arbitrary: acc)
  case Nil
  then show ?case by simp
next
  case (Cons m ms)
  have "distinct (map fst (index_step fs acc m))"
    using Cons.prems by (auto simp: index_step_def distinct_dict_set split: option.splits)
  then show ?case
    using Cons.IH by simp
qed

text \<open>
  C10. The lookup is total: \<open>resolve_guid\<close> answers \<open>None\<close> for a GUID that is not a key
  of the index and has no failing branch. When several metadata files (each with an
  existing sibling asset) declare the same GUID, the index holds one entry for it, the
  asset of the file met last in the scan; the build produces nothing but the index.
\<close>

theorem guid_index_total_last_wins:
  "(resolve_guid index guid = None) = (guid \<notin> set (map fst index))
   \<and> distinct (map fst (build_guid_index fs))
   \<and> resolve_guid (build_guid_index fs) guid =
       (case declaring fs guid of
          [] \<Rightarrow> None
        | m # ms \<Rightarrow> Some (asset_file_of (last (m # ms))))"
proof -
  have "(map_of index guid = None) = (guid \<notin> set (map fst index))"
    by (simp add: map_of_eq_None_iff)
  moreover have "distinct (map fst (foldl (index_step fs) [] (rglob_meta fs)))"
    by (rule foldl_index_distinct) simp
  moreover have "map_of (foldl (index_step fs) [] (rglob_meta fs)) guid =
       (case declaring fs guid of
          [] \<Rightarrow> None
        | m # ms \<Rightarrow> Some (asset_file_of (last (m # ms))))"
    by (simp add: foldl_index_lookup declaring_def split: list.splits)
  ultimately show ?thesis
    by (simp add: resolve_guid_def build_guid_index_def)
qed

theorem guid_index_total_last_wins_witness:
  "resolve_guid
     (build_guid_index
        \<lparr>rglob_meta = [''Assets/a/rock.fbx.meta'', ''Assets/b/rock_copy.fbx.meta''],
         read_text = (\<lambda>p. Some ''fileFormatVersion: 2\<newline>guid: 0a1b2c3d\<newline>''),
         path_exists = (\<lambda>p. True)\<rparr>) ''0a1b2c3d''
     = Some ''Assets/b/rock_copy.fbx''
   \<and> resolve_guid
     (build_guid_index
        \<lparr>rglob_meta = [''Assets/a/rock.fbx.meta'', ''Assets/b/rock_copy.fbx.meta''],
         read_text = (\<lambda>p. Some ''fileFormatVersion: 2\<newline>guid: 0a1b2c3d\<newline>''),
         path_exists = (\<lambda>p. True)\<rparr>) ''ffff'' = None"
  using guid_index_total_last_wins
    [of "[]" "''ffff''"
        "\<lparr>rglob_meta = [''Assets/a/rock.fbx.meta'', ''Assets/b/rock_copy.fbx.meta''],
          read_text = (\<lambda>p. Some ''fileFormatVersion: 2\<newline>guid: 0a1b2c3d\<newline>''),
          path_exists = (\<lambda>p. True)\<rparr>"]
  by (simp add: build_guid_index_def resolve_guid_def index_step_def indexed_entry_def
      match_guid_here_def is_space_def is_hex_lower_def asset_file_of_def)

end
